theory Spec2Isabelle
  imports Complex_Main "HOL-Library.Word"
begin

section \<open>The connection of asyncmongo (connection.py)\<close>

text \<open>
  The class \<^verbatim>\<open>Connection\<close> is embedded as a record of its attributes and one function
  per method. A method takes the connection and returns the exception it raises (if
  any), the connection as the method leaves it, and the calls it made on its
  collaborators (socket, stream, io loop, pool, the caller's callbacks), in order.
  What the collaborators answer during one call is read from an environment.
\<close>

subsection \<open>Documents and replies\<close>

type_synonym byte = "8 word"
type_synonym bytes = "byte list"

text \<open>The values of a decoded document, as far as the connection looks at them.\<close>

datatype bson =
    BNull
  | BBool bool
  | BInt int
  | BFloat real
  | BStr string
  | BList "bson list"
  | BDoc "(string \<times> bson) list"

type_synonym doc = "(string \<times> bson) list"

text \<open>Python's truth value of a value (\<^verbatim>\<open>if v\<close>).\<close>

fun truthy :: "bson \<Rightarrow> bool" where
  "truthy BNull = False"
| "truthy (BBool b) = b"
| "truthy (BInt i) = (i \<noteq> 0)"
| "truthy (BFloat r) = (r \<noteq> 0)"
| "truthy (BStr s) = (s \<noteq> [])"
| "truthy (BList vs) = (vs \<noteq> [])"
| "truthy (BDoc kvs) = (kvs \<noteq> [])"

text \<open>Python's \<^verbatim>\<open>v != 1\<close>: numbers compare by value, \<^verbatim>\<open>True == 1\<close>.\<close>

fun ne_one :: "bson \<Rightarrow> bool" where
  "ne_one (BInt i) = (i \<noteq> 1)"
| "ne_one (BFloat r) = (r \<noteq> 1)"
| "ne_one (BBool b) = (\<not> b)"
| "ne_one v = True"

text \<open>\<^verbatim>\<open>d.get(k)\<close>: the value, or \<^verbatim>\<open>None\<close> when the key is missing.\<close>

definition dict_get :: "doc \<Rightarrow> string \<Rightarrow> bson" where
  "dict_get d k = (case map_of d k of None \<Rightarrow> BNull | Some v \<Rightarrow> v)"

text \<open>
  The dictionary that \<^verbatim>\<open>helpers._unpack_response\<close> returns; the connection reads its
  keys \<^verbatim>\<open>data\<close> and \<^verbatim>\<open>number_returned\<close>. It always has keys, so it is true as a
  condition.
\<close>

record response =
  data :: "doc list"
  number_returned :: int

subsection \<open>Exceptions\<close>

text \<open>
  The exceptions that leave a method. \<open>ConnectionError\<close> is not a class of
  connection.py: no function below raises it. It is listed because the specification
  names it for a failed connect, so that a statement about it can be written.
  Assertions are enabled, as they are unless Python runs with \<^verbatim>\<open>-O\<close>; the message
  of an assertion is not kept.
\<close>

datatype exn =
    SocketError string
  | IOError string
  | StructError
  | AssertionError
  | AttributeError
  | TypeError
  | IndexError
  | KeyError string
  | DatabaseError string
  | ProgrammingError string
  | InterfaceError pyarg
  | AuthenticationError pyarg
  | IntegrityError bson bson
  | ConnectionError pyarg
and pyarg =
    Str string
  | Val bson
  | Exc exn

subsection \<open>The connection object\<close>

text \<open>
  A callback is either a caller's completion, known by a number and never run by the
  model (its call is recorded; it is a function, hence true as a condition, and it is
  taken to return), or one of the connection's own two continuations.
\<close>

datatype callback = UserCallback nat | StartAuthentication | FinishAuthentication

datatype continuation = ParseHeader | ParseResponse

datatype backend = Tornado | Glib2 | Glib3

text \<open>A message is the pair \<^verbatim>\<open>(request_id, data)\<close> that \<^verbatim>\<open>message.query\<close> builds.\<close>

type_synonym message = "int \<times> bytes"

record pool =
  dbname :: string

record conn =
  host :: string
  port :: int
  dbuser :: "string option"
  dbpass :: "string option"
  stream :: "nat option"
  callback :: "callback option"
  alive :: bool
  authenticate :: bool
  autoreconnect :: bool
  pool :: pool
  deferred_message :: "message option"
  deferred_callback :: "callback option"
  backend_class :: backend
  usage_count :: int
  request_timeout :: real
  min_timeout :: real
  timeout :: "real option"
  start_time :: real
  request_id :: "int option"

text \<open>
  \<open>request_id\<close> is \<open>None\<close> both for Python's \<^verbatim>\<open>None\<close> and before the first
  assignment: the attribute is read only by the handlers that \<^verbatim>\<open>_send_message\<close>
  registers after assigning it. Times are reals (rounding is not modelled); a timer
  handle is the deadline it was armed with. The keyword arguments for the backend and
  the backend object are left out.
\<close>

datatype event =
    SocketCreate
  | SocketConnect string int
  | RegisterStream
  | StreamConnect string int
  | SetCloseCallback
  | AddTimeout real
  | RemoveTimeout real
  | StreamWrite bytes
  | StreamRead int continuation
  | StreamClose
  | PoolCache
  | CallbackInvoked nat "response option" "exn option"

text \<open>
  A call on a collaborator is recorded when it is made, also when it then raises.
  \<open>CallbackInvoked k r e\<close> is the call of the caller's completion \<open>k\<close> with the
  response \<open>r\<close> and the error \<open>e\<close> (\<open>None\<close> when no error is passed).
\<close>

text \<open>
  What the outside answers during one call of a method: the clock, whether creating or
  connecting the socket raises \<^verbatim>\<open>socket.error\<close>, the stream that
  \<^verbatim>\<open>register_stream\<close> returns, whether the write or the read raises \<^verbatim>\<open>IOError\<close>,
  and the three functions of the sibling modules that connection.py calls
  (\<^verbatim>\<open>message.query\<close>, \<^verbatim>\<open>helpers._auth_key\<close>, \<^verbatim>\<open>helpers._unpack_response\<close>), which
  are not part of connection.py.
\<close>

record env =
  now :: real
  socket_error :: "string option"
  connect_error :: "string option"
  new_stream :: nat
  write_error :: "string option"
  read_error :: "string option"
  query :: "int \<Rightarrow> string \<Rightarrow> int \<Rightarrow> int \<Rightarrow> doc \<Rightarrow> doc \<Rightarrow> message"
  auth_key :: "bson \<Rightarrow> bson \<Rightarrow> bson \<Rightarrow> bson"
  unpack_response :: "bytes \<Rightarrow> int option \<Rightarrow> exn + response"

type_synonym outcome = "exn option \<times> conn \<times> event list"

text \<open>The calls made so far, followed by those of the rest of the method.\<close>

fun after :: "event list \<Rightarrow> outcome \<Rightarrow> outcome" where
  "after evs (x, c, evs') = (x, c, evs @ evs')"

definition str_truthy :: "string option \<Rightarrow> bool" where
  "str_truthy s = (case s of None \<Rightarrow> False | Some t \<Rightarrow> t \<noteq> [])"

definition opt_bson :: "string option \<Rightarrow> bson" where
  "opt_bson s = (case s of None \<Rightarrow> BNull | Some t \<Rightarrow> BStr t)"

subsection \<open>Sending\<close>

text \<open>
  \<^verbatim>\<open>_send_message\<close> (lines 170-185). Unpacking a message that is \<^verbatim>\<open>None\<close> raises
  \<^verbatim>\<open>TypeError\<close>, after the usage count went up; a stream that is \<^verbatim>\<open>None\<close> has no
  \<^verbatim>\<open>write\<close>. Only an \<^verbatim>\<open>IOError\<close> marks the connection as not alive.
\<close>

definition send_message' :: "env \<Rightarrow> conn \<Rightarrow> message option \<Rightarrow> outcome" where
  "send_message' e c m =
     (let c1 = c\<lparr>usage_count := usage_count c + 1\<rparr> in
      case m of
        None \<Rightarrow> (Some TypeError, c1, [])
      | Some (rid, d) \<Rightarrow>
          (let c2 = c1\<lparr>request_id := Some rid\<rparr> in
           case stream c2 of
             None \<Rightarrow> (Some AttributeError, c2, [])
           | Some s \<Rightarrow>
               (case write_error e of
                  Some w \<Rightarrow> (Some (IOError w), c2\<lparr>alive := False\<rparr>, [StreamWrite d])
                | None \<Rightarrow>
                    if callback c2 \<noteq> None then
                      (case read_error e of
                         Some r \<Rightarrow>
                           (Some (IOError r), c2\<lparr>alive := False\<rparr>,
                            [StreamWrite d, StreamRead 16 ParseHeader])
                       | None \<Rightarrow> (None, c2, [StreamWrite d, StreamRead 16 ParseHeader]))
                    else (None, c2\<lparr>request_id := None\<rparr>, [StreamWrite d, PoolCache]))))"

subsection \<open>The authentication handshake\<close>

text \<open>
  \<^verbatim>\<open>_start_authentication\<close> (lines 228-244), the continuation of the nonce request.
  An error that is passed is an exception object, hence true as a condition. Indexing a
  response that is \<^verbatim>\<open>None\<close> raises \<^verbatim>\<open>TypeError\<close>, an empty list of documents
  \<^verbatim>\<open>IndexError\<close>, a missing key \<^verbatim>\<open>KeyError\<close>. The logging calls are left out.
\<close>

definition start_authentication ::
  "env \<Rightarrow> conn \<Rightarrow> response option \<Rightarrow> exn option \<Rightarrow> outcome" where
  "start_authentication e c resp err =
     (case err of
        Some x \<Rightarrow> (Some (AuthenticationError (Exc x)), c, [])
      | None \<Rightarrow>
          (case resp of
             None \<Rightarrow> (Some TypeError, c, [])
           | Some r \<Rightarrow>
               (case data r of
                  [] \<Rightarrow> (Some IndexError, c, [])
                | d # _ \<Rightarrow>
                    (case map_of d ''nonce'' of
                       None \<Rightarrow> (Some (KeyError ''nonce''), c, [])
                     | Some nonce \<Rightarrow>
                         (let key = auth_key e nonce (opt_bson (dbuser c)) (opt_bson (dbpass c));
                              c1 = c\<lparr>callback := Some FinishAuthentication\<rparr>
                          in send_message' e c1
                               (Some (query e 0 (dbname (pool c1) @ ''.$cmd'') 0 1
                                  [(''authenticate'', BInt 1), (''user'', opt_bson (dbuser c1)),
                                   (''nonce'', nonce), (''key'', key)] [])))))))"

text \<open>
  \<^verbatim>\<open>_finish_authentication\<close> (lines 246-265), the continuation of the authenticate
  command. The message of the failure is formatted for the log before the deferred pair
  is cleared, so a reply without \<^verbatim>\<open>errmsg\<close> raises \<^verbatim>\<open>KeyError\<close> there.
\<close>

definition finish_authentication ::
  "env \<Rightarrow> conn \<Rightarrow> response option \<Rightarrow> exn option \<Rightarrow> outcome" where
  "finish_authentication e c resp err =
     (case err of
        Some x \<Rightarrow>
          (Some (AuthenticationError (Exc x)),
           c\<lparr>deferred_message := None, deferred_callback := None\<rparr>, [])
      | None \<Rightarrow>
          (case resp of
             None \<Rightarrow> (Some TypeError, c, [])
           | Some r \<Rightarrow>
               if number_returned r \<noteq> 1 then (Some AssertionError, c, [])
               else
                 (case data r of
                    [] \<Rightarrow> (Some IndexError, c, [])
                  | d # _ \<Rightarrow>
                      (case map_of d ''ok'' of
                         None \<Rightarrow> (Some (KeyError ''ok''), c, [])
                       | Some ok \<Rightarrow>
                           if ne_one ok then
                             (case map_of d ''errmsg'' of
                                None \<Rightarrow> (Some (KeyError ''errmsg''), c, [])
                              | Some msg \<Rightarrow>
                                  (Some (AuthenticationError (Val msg)),
                                   c\<lparr>deferred_message := None, deferred_callback := None\<rparr>, []))
                           else
                             send_message' e
                               (c\<lparr>deferred_message := None, deferred_callback := None,
                                  callback := deferred_callback c\<rparr>)
                               (deferred_message c)))))"

text \<open>
  Calling the stored callback: a caller's completion is recorded, a continuation of the
  connection runs.
\<close>

definition call ::
  "env \<Rightarrow> conn \<Rightarrow> callback \<Rightarrow> response option \<Rightarrow> exn option \<Rightarrow> outcome" where
  "call e c cb resp err =
     (case cb of
        UserCallback k \<Rightarrow> (None, c, [CallbackInvoked k resp err])
      | StartAuthentication \<Rightarrow> start_authentication e c resp err
      | FinishAuthentication \<Rightarrow> finish_authentication e c resp err)"

subsection \<open>Receiving\<close>

text \<open>
  \<^verbatim>\<open>struct.unpack("<i", b)\<close>: four bytes, least significant first, read as a signed
  32-bit integer; any other number of bytes raises \<^verbatim>\<open>struct.error\<close>.
\<close>

definition int32_le :: "byte \<Rightarrow> byte \<Rightarrow> byte \<Rightarrow> byte \<Rightarrow> int" where
  "int32_le b0 b1 b2 b3 =
     sint (word_of_int (uint b0 + 256 * uint b1 + 65536 * uint b2 + 16777216 * uint b3)
             :: 32 word)"

definition unpack_i :: "bytes \<Rightarrow> exn + int" where
  "unpack_i bs =
     (case bs of
        [b0, b1, b2, b3] \<Rightarrow> Inr (int32_le b0 b1 b2 b3)
      | _ \<Rightarrow> Inl StructError)"

text \<open>\<^verbatim>\<open>_parse_header\<close> (lines 187-200); \<^verbatim>\<open>header[8:12]\<close> is \<open>take 4 (drop 8 header)\<close>.\<close>

definition parse_header :: "env \<Rightarrow> conn \<Rightarrow> bytes \<Rightarrow> outcome" where
  "parse_header e c header =
     (case unpack_i (take 4 header) of
        Inl x \<Rightarrow> (Some x, c, [])
      | Inr len \<Rightarrow>
          (case unpack_i (take 4 (drop 8 header)) of
             Inl x \<Rightarrow> (Some x, c, [])
           | Inr rid \<Rightarrow>
               if Some rid \<noteq> request_id c then (Some AssertionError, c, [])
               else
                 (case unpack_i (drop 12 header) of
                    Inl x \<Rightarrow> (Some x, c, [])
                  | Inr operation \<Rightarrow>
                      if 1 \<noteq> operation then (Some AssertionError, c, [])
                      else
                        (case stream c of
                           None \<Rightarrow> (Some AttributeError, c, [])
                         | Some s \<Rightarrow>
                             (case read_error e of
                                Some r \<Rightarrow>
                                  (Some (IOError r), c\<lparr>alive := False\<rparr>,
                                   [StreamRead (len - 16) ParseResponse])
                              | None \<Rightarrow> (None, c, [StreamRead (len - 16) ParseResponse]))))))"

text \<open>
  \<^verbatim>\<open>_parse_response\<close> (lines 202-226). A deferred message is a pair, hence true as a
  condition whenever it is not \<^verbatim>\<open>None\<close>. Where the test of line 223 passes, the keys
  \<^verbatim>\<open>err\<close> and \<^verbatim>\<open>code\<close> are present, so indexing gives what \<^verbatim>\<open>get\<close> gave.
\<close>

definition parse_response :: "env \<Rightarrow> conn \<Rightarrow> bytes \<Rightarrow> outcome" where
  "parse_response e c body =
     (case callback c of
        None \<Rightarrow> (None, c, [])
      | Some cb \<Rightarrow>
          (let rid = request_id c;
               c1 = c\<lparr>request_id := None, callback := None\<rparr>;
               cached = (if deferred_message c1 = None then [PoolCache] else [])
           in after cached
                (case unpack_response e body rid of
                   Inl x \<Rightarrow> call e c1 cb None (Some x)
                 | Inr r \<Rightarrow>
                     (case data r of
                        [] \<Rightarrow> call e c1 cb (Some r) None
                      | d # _ \<Rightarrow>
                          if truthy (dict_get d ''err'') \<and> truthy (dict_get d ''code'')
                          then call e c1 cb (Some r)
                                 (Some (IntegrityError (dict_get d ''err'') (dict_get d ''code'')))
                          else call e c1 cb (Some r) None))))"

subsection \<open>Closing and timers\<close>

text \<open>
  \<^verbatim>\<open>_close\<close> (lines 137-143): the pending callback is called first; what it raises
  leaves the method before the cleanup.
\<close>

definition close' :: "env \<Rightarrow> conn \<Rightarrow> outcome" where
  "close' e c =
     (case (case callback c of
              Some cb \<Rightarrow> call e c cb None (Some (InterfaceError (Str ''connection closed'')))
            | None \<Rightarrow> (None, c, [])) of
        (Some x, c1, evs) \<Rightarrow> (Some x, c1, evs)
      | (None, c1, evs) \<Rightarrow>
          (let c2 = c1\<lparr>callback := None, alive := False\<rparr> in
           case stream c2 of
             None \<Rightarrow> (Some AttributeError, c2, evs)
           | Some s \<Rightarrow> (None, c2, evs @ [StreamClose])))"

text \<open>\<^verbatim>\<open>close\<close> (lines 145-148).\<close>

definition close :: "env \<Rightarrow> conn \<Rightarrow> outcome" where
  "close e c =
     (case close' e c of
        (Some x, c1, evs) \<Rightarrow> (Some x, c1, evs)
      | (None, c1, evs) \<Rightarrow> (None, c1, evs @ [PoolCache]))"

text \<open>\<^verbatim>\<open>_socket_close\<close> (lines 129-135).\<close>

definition socket_close :: "env \<Rightarrow> conn \<Rightarrow> outcome" where
  "socket_close e c =
     (case (case callback c of
              Some cb \<Rightarrow> call e c cb None (Some (InterfaceError (Str ''connection closed'')))
            | None \<Rightarrow> (None, c, [])) of
        (Some x, c1, evs) \<Rightarrow> (Some x, c1, evs)
      | (None, c1, evs) \<Rightarrow> (None, c1\<lparr>callback := None, alive := False\<rparr>, evs @ [PoolCache]))"

text \<open>\<^verbatim>\<open>_on_timeout\<close> (lines 114-116).\<close>

definition on_timeout :: "env \<Rightarrow> conn \<Rightarrow> outcome" where
  "on_timeout e c = close e (c\<lparr>timeout := None\<rparr>)"

text \<open>\<^verbatim>\<open>_on_connect\<close> (lines 118-127); the io loop is reached through the stream.\<close>

definition on_connect :: "env \<Rightarrow> conn \<Rightarrow> outcome" where
  "on_connect e c =
     (case stream c of
        None \<Rightarrow>
          if timeout c = None \<and> request_timeout c = 0 then (None, c, [])
          else (Some AttributeError, c, [])
      | Some s \<Rightarrow>
          (let (c1, evs1) =
                 (case timeout c of
                    Some h \<Rightarrow> (c\<lparr>timeout := None\<rparr>, [RemoveTimeout h])
                  | None \<Rightarrow> (c, []));
               deadline = start_time c1 + request_timeout c1
           in if request_timeout c1 \<noteq> 0
              then (None, c1\<lparr>timeout := Some deadline\<rparr>, evs1 @ [AddTimeout deadline])
              else (None, c1, evs1)))"

subsection \<open>Connecting\<close>

text \<open>
  The end of \<^verbatim>\<open>__connect\<close> (lines 106-112), which both backends reach: the close
  callback is registered, the connection is alive, and credentials that are both
  non-empty switch authentication on.
\<close>

definition connect_done :: "conn \<Rightarrow> event list \<Rightarrow> outcome" where
  "connect_done c evs =
     (let c1 = c\<lparr>alive := True\<rparr> in
      (None,
       if str_truthy (dbuser c1) \<and> str_truthy (dbpass c1) then c1\<lparr>authenticate := True\<rparr> else c1,
       evs @ [SetCloseCallback]))"

text \<open>
  \<^verbatim>\<open>__connect\<close> (lines 88-112). A \<^verbatim>\<open>socket.error\<close> comes from creating the socket
  or from connecting it; it is raised again as \<^verbatim>\<open>InterfaceError(error)\<close>.
\<close>

definition connect :: "env \<Rightarrow> conn \<Rightarrow> outcome" where
  "connect e c =
     (let c1 = c\<lparr>usage_count := 0, start_time := now e\<rparr> in
      case socket_error e of
        Some x \<Rightarrow> (Some (InterfaceError (Exc (SocketError x))), c1, [SocketCreate])
      | None \<Rightarrow>
          if backend_class c1 = Tornado then
            (let c2 = c1\<lparr>stream := Some (new_stream e)\<rparr>;
                 deadline = start_time c2 + min_timeout c2;
                 (c3, evs) =
                   (if min_timeout c2 \<noteq> 0
                    then (c2\<lparr>timeout := Some deadline\<rparr>,
                          [SocketCreate, RegisterStream, AddTimeout deadline,
                           StreamConnect (host c2) (port c2)])
                    else (c2, [SocketCreate, RegisterStream, StreamConnect (host c2) (port c2)]))
             in case connect_error e of
                  Some x \<Rightarrow> (Some (InterfaceError (Exc (SocketError x))), c3, evs)
                | None \<Rightarrow> connect_done c3 evs)
          else
            (case connect_error e of
               Some x \<Rightarrow>
                 (Some (InterfaceError (Exc (SocketError x))), c1,
                  [SocketCreate, SocketConnect (host c1) (port c1)])
             | None \<Rightarrow>
                 connect_done (c1\<lparr>stream := Some (new_stream e)\<rparr>)
                   [SocketCreate, SocketConnect (host c1) (port c1), RegisterStream]))"

text \<open>
  \<^verbatim>\<open>__init__\<close> (lines 51-81). The types stand for the assertions on the arguments; the
  pool is given. When the result carries an exception, no object was built.
\<close>

definition init ::
  "env \<Rightarrow> string \<Rightarrow> int \<Rightarrow> real \<Rightarrow> real \<Rightarrow> string option \<Rightarrow> string option \<Rightarrow> bool \<Rightarrow> pool \<Rightarrow>
   backend \<Rightarrow> outcome" where
  "init e h p connect_timeout request_timeout' user passwd reconnect pl be =
     connect e
       \<lparr>host = h, port = p, dbuser = user, dbpass = passwd, stream = None, callback = None,
        alive = False, authenticate = False, autoreconnect = reconnect, pool = pl,
        deferred_message = None, deferred_callback = None, backend_class = be,
        usage_count = 0, request_timeout = request_timeout',
        min_timeout = min connect_timeout request_timeout', timeout = None,
        start_time = now e, request_id = None\<rparr>"

subsection \<open>The entry point\<close>

text \<open>\<^verbatim>\<open>_get_nonce\<close> (lines 267-277).\<close>

definition get_nonce :: "env \<Rightarrow> conn \<Rightarrow> callback \<Rightarrow> outcome" where
  "get_nonce e c cb =
     (if callback c \<noteq> None then (Some AssertionError, c, [])
      else
        (let c1 = c\<lparr>callback := Some cb\<rparr>
         in send_message' e c1
              (Some (query e 0 (dbname (pool c1) @ ''.$cmd'') 0 1 [(''getnonce'', BInt 1)] []))))"

text \<open>\<^verbatim>\<open>send_message\<close> (lines 150-168).\<close>

definition send_message :: "env \<Rightarrow> conn \<Rightarrow> message \<Rightarrow> callback option \<Rightarrow> outcome" where
  "send_message e c m cb =
     (if callback c \<noteq> None
      then (Some (ProgrammingError ''connection already in use''), c, [])
      else
        (case (if \<not> alive c
               then (if autoreconnect c then connect e c
                     else (Some (InterfaceError (Str ''connection invalid. autoreconnect=False'')),
                           c, []))
               else (None, c, [])) of
           (Some x, c1, evs) \<Rightarrow> (Some x, c1, evs)
         | (None, c1, evs) \<Rightarrow>
             after evs
               (if authenticate c1
                then get_nonce e (c1\<lparr>deferred_message := Some m, deferred_callback := cb\<rparr>)
                       StartAuthentication
                else send_message' e (c1\<lparr>callback := cb\<rparr>) (Some m))))"

subsection \<open>The io loop\<close>

text \<open>
  What the io loop and the caller deliver to a connection, one at a time: a request, the
  sixteen bytes of a header, a body, the expiry of the timer, the end of the connect,
  the close of the socket by the peer. A run stops at the first exception.
\<close>

datatype input =
    Request message "callback option"
  | Header bytes
  | Body bytes
  | TimerExpired
  | Connected
  | PeerClosed

fun deliver :: "env \<Rightarrow> conn \<Rightarrow> input \<Rightarrow> outcome" where
  "deliver e c (Request m cb) = send_message e c m cb"
| "deliver e c (Header h) = parse_header e c h"
| "deliver e c (Body b) = parse_response e c b"
| "deliver e c TimerExpired = on_timeout e c"
| "deliver e c Connected = on_connect e c"
| "deliver e c PeerClosed = socket_close e c"

fun run :: "env \<Rightarrow> conn \<Rightarrow> input list \<Rightarrow> outcome" where
  "run e c [] = (None, c, [])"
| "run e c (i # is) =
     (case deliver e c i of
        (Some x, c1, evs) \<Rightarrow> (Some x, c1, evs)
      | (None, c1, evs) \<Rightarrow> after evs (run e c1 is))"

text \<open>The data written to the stream, in order.\<close>

fun writes :: "event list \<Rightarrow> bytes list" where
  "writes [] = []"
| "writes (StreamWrite d # evs) = d # writes evs"
| "writes (_ # evs) = writes evs"

subsection \<open>Sample collaborators and connections\<close>

text \<open>
  A server and helper modules to run the connection against: the nonce command is
  encoded as the byte 1 with request id 101, the authenticate command as the byte 2 with
  request id 102; a reply body is a single byte that selects the decoded reply.
\<close>

definition sample_query :: "int \<Rightarrow> string \<Rightarrow> int \<Rightarrow> int \<Rightarrow> doc \<Rightarrow> doc \<Rightarrow> message" where
  "sample_query options ns skip limit q selector =
     (if map_of q ''getnonce'' = None then (102, [2]) else (101, [1]))"

definition sample_auth_key :: "bson \<Rightarrow> bson \<Rightarrow> bson \<Rightarrow> bson" where
  "sample_auth_key nonce user passwd = BStr ''key''"

definition sample_unpack :: "bytes \<Rightarrow> int option \<Rightarrow> exn + response" where
  "sample_unpack body rid =
     (if body = [1] then Inr \<lparr>data = [[(''nonce'', BStr ''abc'')]], number_returned = 1\<rparr>
      else if body = [2] then Inr \<lparr>data = [[(''ok'', BFloat 1)]], number_returned = 1\<rparr>
      else if body = [3] then Inr \<lparr>data = [[(''n'', BInt 1)]], number_returned = 1\<rparr>
      else if body = [4]
        then Inr \<lparr>data = [[(''err'', BStr ''E''), (''code'', BInt 11000)]], number_returned = 1\<rparr>
      else if body = [5]
        then Inr \<lparr>data = [[(''ok'', BFloat 0), (''errmsg'', BStr ''auth fails'')]],
                  number_returned = 1\<rparr>
      else if body = [6] then Inr \<lparr>data = [], number_returned = 0\<rparr>
      else Inl (DatabaseError ''database error''))"

definition sample_env :: env where
  "sample_env =
     \<lparr>now = 0, socket_error = None, connect_error = None, new_stream = 1,
      write_error = None, read_error = None, query = sample_query,
      auth_key = sample_auth_key, unpack_response = sample_unpack\<rparr>"

definition sample_pool :: pool where
  "sample_pool = \<lparr>dbname = ''test''\<rparr>"

text \<open>A connection without credentials and one with, as \<^verbatim>\<open>__init__\<close> leaves them.\<close>

definition plain_conn :: conn where
  "plain_conn =
     fst (snd (init sample_env ''localhost'' 27017 20 20 None None True sample_pool Tornado))"

definition cred_conn :: conn where
  "cred_conn =
     fst (snd (init sample_env ''localhost'' 27017 20 20 (Some ''user'') (Some ''secret'') True
                 sample_pool Tornado))"

text \<open>A reply header: length, response id, the id of the request, the opcode 1.\<close>

definition header_for :: "byte \<Rightarrow> byte \<Rightarrow> bytes" where
  "header_for len rid = [len, 0, 0, 0,  0, 0, 0, 0,  rid, 0, 0, 0,  1, 0, 0, 0]"

text \<open>
  The plain connection after a request with a completion was sent, and the credentialed
  connection after a request was handed to it, which leaves the nonce command on the
  wire and the request deferred.
\<close>

definition busy_conn :: conn where
  "busy_conn = fst (snd (send_message sample_env plain_conn (7, [7]) (Some (UserCallback 0))))"

definition handshake_conn :: conn where
  "handshake_conn =
     fst (snd (send_message sample_env cred_conn (7, [7]) (Some (UserCallback 0))))"

text \<open>A stream whose write raises \<^verbatim>\<open>IOError\<close>.\<close>

definition broken_env :: env where
  "broken_env = sample_env\<lparr>write_error := Some ''broken pipe''\<rparr>"

text \<open>A server that refuses the connection.\<close>

definition refusing_env :: env where
  "refusing_env = sample_env\<lparr>connect_error := Some ''refused''\<rparr>"

text \<open>
  One request on the credentialed connection, answered in full (nonce, authentication,
  reply), followed by a second request.
\<close>

definition two_requests :: "input list" where
  "two_requests =
     [Request (7, [7]) (Some (UserCallback 0)),
      Header (header_for 17 101), Body [1],
      Header (header_for 17 102), Body [2],
      Header (header_for 17 7), Body [3],
      Request (8, [8]) (Some (UserCallback 1))]"

section \<open>Properties\<close>

subsection \<open>The sample connections, evaluated\<close>

lemmas sample_defs =
  sample_env_def sample_pool_def sample_query_def sample_unpack_def sample_auth_key_def
  header_for_def refusing_env_def broken_env_def

lemma plain_conn_eq:
  "plain_conn =
     \<lparr>host = ''localhost'', port = 27017, dbuser = None, dbpass = None, stream = Some 1,
      callback = None, alive = True, authenticate = False, autoreconnect = True,
      pool = \<lparr>dbname = ''test''\<rparr>, deferred_message = None, deferred_callback = None,
      backend_class = Tornado, usage_count = 0, request_timeout = 20, min_timeout = 20,
      timeout = Some 20, start_time = 0, request_id = None\<rparr>"
  by (simp add: plain_conn_def init_def connect_def connect_done_def str_truthy_def sample_defs)

lemma cred_conn_eq:
  "cred_conn =
     \<lparr>host = ''localhost'', port = 27017, dbuser = Some ''user'', dbpass = Some ''secret'',
      stream = Some 1, callback = None, alive = True, authenticate = True,
      autoreconnect = True, pool = \<lparr>dbname = ''test''\<rparr>, deferred_message = None,
      deferred_callback = None, backend_class = Tornado, usage_count = 0,
      request_timeout = 20, min_timeout = 20, timeout = Some 20, start_time = 0,
      request_id = None\<rparr>"
  by (simp add: cred_conn_def init_def connect_def connect_done_def str_truthy_def sample_defs)

lemma busy_conn_eq:
  "busy_conn =
     \<lparr>host = ''localhost'', port = 27017, dbuser = None, dbpass = None, stream = Some 1,
      callback = Some (UserCallback 0), alive = True, authenticate = False,
      autoreconnect = True, pool = \<lparr>dbname = ''test''\<rparr>, deferred_message = None,
      deferred_callback = None, backend_class = Tornado, usage_count = 1,
      request_timeout = 20, min_timeout = 20, timeout = Some 20, start_time = 0,
      request_id = Some 7\<rparr>"
  by (simp add: busy_conn_def plain_conn_eq send_message_def send_message'_def sample_defs)

lemma handshake_conn_eq:
  "handshake_conn =
     \<lparr>host = ''localhost'', port = 27017, dbuser = Some ''user'', dbpass = Some ''secret'',
      stream = Some 1, callback = Some StartAuthentication, alive = True,
      authenticate = True, autoreconnect = True, pool = \<lparr>dbname = ''test''\<rparr>,
      deferred_message = Some (7, [7]), deferred_callback = Some (UserCallback 0),
      backend_class = Tornado, usage_count = 1, request_timeout = 20, min_timeout = 20,
      timeout = Some 20, start_time = 0, request_id = Some 101\<rparr>"
  by (simp add: handshake_conn_def cred_conn_eq send_message_def get_nonce_def
      send_message'_def sample_defs)

text \<open>
  A connect that returns leaves a stream and a live connection, so every connection that
  \<^verbatim>\<open>__init__\<close> built has a stream.
\<close>

lemma connect_stream:
  assumes "fst (connect e c) = None"
  shows "stream (fst (snd (connect e c))) = Some (new_stream e) \<and> alive (fst (snd (connect e c)))"
  using assms by (auto simp: connect_def connect_done_def Let_def split: option.splits if_splits)

subsection \<open>A busy connection refuses a request\<close>

text \<open>
  C1. Whatever the connection and the environment, \<open>send_message\<close> called while a
  callback is pending raises \<open>ProgrammingError\<close>, leaves the connection as it was and
  calls none of its collaborators: nothing is written, read or reconnected.
\<close>

theorem send_message_busy:
  assumes "callback c = Some cb"
  shows "send_message e c m cb' =
           (Some (ProgrammingError ''connection already in use''), c, [])"
  using assms by (simp add: send_message_def)

theorem send_message_busy_witness:
  "callback busy_conn = Some (UserCallback 0) \<and>
   send_message sample_env busy_conn (8, [8]) (Some (UserCallback 1)) =
     (Some (ProgrammingError ''connection already in use''), busy_conn, [])"
proof -
  have busy: "callback busy_conn = Some (UserCallback 0)"
    by (simp add: busy_conn_eq)
  from send_message_busy [OF busy] busy show ?thesis
    by simp
qed

subsection \<open>The header of a reply\<close>

lemma int32_le_range: "- (2 ^ 31) \<le> int32_le b0 b1 b2 b3 \<and> int32_le b0 b1 b2 b3 < 2 ^ 31"
proof -
  let ?w = "word_of_int (uint b0 + 256 * uint b1 + 65536 * uint b2 + 16777216 * uint b3)
              :: 32 word"
  have "- (2 ^ (LENGTH(32) - 1)) \<le> sint ?w" and "sint ?w < 2 ^ (LENGTH(32) - 1)"
    by (rule sint_ge, rule sint_lt)
  then show ?thesis
    by (simp add: int32_le_def)
qed

lemma int32_le_examples:
  "int32_le 36 0 0 0 = 36" "int32_le 0 1 0 0 = 256" "int32_le 255 255 255 255 = - 1"
  "int32_le 0 0 0 128 = - 2147483648"
  by (simp_all add: int32_le_def)

text \<open>
  C3. For a header of sixteen bytes, the parser compares the little-endian 32-bit field
  at bytes 8 to 11 with the stored request id and the one at bytes 12 to 15 with the
  opcode 1. When either differs it raises \<open>AssertionError\<close> and has called nothing
  (no read of the body). When both agree it asks the stream for exactly the total length
  (bytes 0 to 3) minus 16 bytes, to be handed to \<open>_parse_response\<close>, and nothing else.
\<close>

theorem parse_header_checks:
  "(request_id c \<noteq> Some (int32_le r0 r1 r2 r3) \<or> int32_le o0 o1 o2 o3 \<noteq> 1 \<longrightarrow>
      parse_header e c [l0, l1, l2, l3, x4, x5, x6, x7, r0, r1, r2, r3, o0, o1, o2, o3] =
        (Some AssertionError, c, []))
   \<and> (request_id c = Some (int32_le r0 r1 r2 r3) \<and> int32_le o0 o1 o2 o3 = 1 \<and>
        stream c = Some s \<longrightarrow>
        snd (snd (parse_header e c
                    [l0, l1, l2, l3, x4, x5, x6, x7, r0, r1, r2, r3, o0, o1, o2, o3])) =
          [StreamRead (int32_le l0 l1 l2 l3 - 16) ParseResponse]
        \<and> (read_error e = None \<longrightarrow>
             parse_header e c [l0, l1, l2, l3, x4, x5, x6, x7, r0, r1, r2, r3, o0, o1, o2, o3] =
               (None, c, [StreamRead (int32_le l0 l1 l2 l3 - 16) ParseResponse])))"
  by (auto simp: parse_header_def unpack_i_def split: option.splits)

theorem parse_header_checks_witness:
  "parse_header sample_env busy_conn (header_for 36 8) = (Some AssertionError, busy_conn, [])
   \<and> parse_header sample_env busy_conn [36, 0, 0, 0, 0, 0, 0, 0, 7, 0, 0, 0, 2, 0, 0, 0] =
       (Some AssertionError, busy_conn, [])
   \<and> parse_header sample_env busy_conn (header_for 36 7) =
       (None, busy_conn, [StreamRead 20 ParseResponse])"
proof -
  have id: "request_id busy_conn = Some 7" and st: "stream busy_conn = Some 1"
    by (simp_all add: busy_conn_eq)
  have vals: "int32_le 7 0 0 0 = 7" "int32_le 8 0 0 0 = 8" "int32_le 1 0 0 0 = 1"
    "int32_le 2 0 0 0 = 2" "int32_le 36 0 0 0 = 36"
    by (simp_all add: int32_le_def)
  have env: "read_error sample_env = None"
    by (simp add: sample_env_def)
  note at = parse_header_checks [where c = busy_conn and e = sample_env and s = 1
      and ?l0.0 = 36 and ?l1.0 = 0 and ?l2.0 = 0 and ?l3.0 = 0
      and ?x4.0 = 0 and ?x5.0 = 0 and ?x6.0 = 0 and ?x7.0 = 0
      and ?r1.0 = 0 and ?r2.0 = 0 and ?r3.0 = 0 and ?o1.0 = 0 and ?o2.0 = 0 and ?o3.0 = 0]
  from at [of 8 1] at [of 7 2] at [of 7 1]
  show ?thesis
    by (simp add: id st vals env header_for_def)
qed

subsection \<open>The body of a reply\<close>

lemma after_Nil: "after [] out = out"
  by (cases out) simp

lemma call_user: "call e c (UserCallback k) r x = (None, c, [CallbackInvoked k r x])"
  by (simp add: call_def)

text \<open>
  C4. A body that arrives while a callback is pending ends in one call of that callback:
  with no response and the decoder's exception when decoding fails; with the response
  and \<open>IntegrityError err code\<close> when the first document has true values under
  both \<open>err\<close> and \<open>code\<close> (the test the code makes); with the response alone
  otherwise. The call is made on the connection with the callback and the request id
  cleared, after the connection was handed back to the pool where that applies.
\<close>

theorem parse_response_completion:
  assumes "callback c = Some cb"
  shows "(unpack_response e body (request_id c) = Inl x \<longrightarrow>
            parse_response e c body =
              after (if deferred_message c = None then [PoolCache] else [])
                (call e (c\<lparr>request_id := None, callback := None\<rparr>) cb None (Some x)))
       \<and> (unpack_response e body (request_id c) = Inr r \<and> data r = d # ds \<and>
            map_of d ''err'' = Some verr \<and> truthy verr \<and>
            map_of d ''code'' = Some vcode \<and> truthy vcode \<longrightarrow>
            parse_response e c body =
              after (if deferred_message c = None then [PoolCache] else [])
                (call e (c\<lparr>request_id := None, callback := None\<rparr>) cb (Some r)
                   (Some (IntegrityError verr vcode))))
       \<and> (unpack_response e body (request_id c) = Inr r \<and>
            (data r = [] \<or> \<not> truthy (dict_get (hd (data r)) ''err'') \<or>
             \<not> truthy (dict_get (hd (data r)) ''code'')) \<longrightarrow>
            parse_response e c body =
              after (if deferred_message c = None then [PoolCache] else [])
                (call e (c\<lparr>request_id := None, callback := None\<rparr>) cb (Some r) None))"
  using assms by (cases "data r") (auto simp: parse_response_def Let_def dict_get_def)

theorem parse_response_completion_witness:
  "parse_response sample_env busy_conn [0] =
     (None, busy_conn\<lparr>request_id := None, callback := None\<rparr>,
      [PoolCache, CallbackInvoked 0 None (Some (DatabaseError ''database error''))])
   \<and> parse_response sample_env busy_conn [4] =
     (None, busy_conn\<lparr>request_id := None, callback := None\<rparr>,
      [PoolCache,
       CallbackInvoked 0
         (Some \<lparr>data = [[(''err'', BStr ''E''), (''code'', BInt 11000)]], number_returned = 1\<rparr>)
         (Some (IntegrityError (BStr ''E'') (BInt 11000)))])
   \<and> parse_response sample_env busy_conn [3] =
     (None, busy_conn\<lparr>request_id := None, callback := None\<rparr>,
      [PoolCache,
       CallbackInvoked 0 (Some \<lparr>data = [[(''n'', BInt 1)]], number_returned = 1\<rparr>) None])"
proof -
  have cb: "callback busy_conn = Some (UserCallback 0)"
    and dm: "deferred_message busy_conn = None"
    by (simp_all add: busy_conn_eq)
  have bad: "unpack_response sample_env [0] (request_id busy_conn) =
               Inl (DatabaseError ''database error'')"
    and err: "unpack_response sample_env [4] (request_id busy_conn) =
               Inr \<lparr>data = [[(''err'', BStr ''E''), (''code'', BInt 11000)]], number_returned = 1\<rparr>"
    and ok: "unpack_response sample_env [3] (request_id busy_conn) =
               Inr \<lparr>data = [[(''n'', BInt 1)]], number_returned = 1\<rparr>"
    by (simp_all add: sample_env_def sample_unpack_def)
  note at = parse_response_completion [OF cb, where e = sample_env]
  from at [where body = "[0]" and x = "DatabaseError ''database error''"]
    at [where body = "[4]" and d = "[(''err'', BStr ''E''), (''code'', BInt 11000)]"
        and ds = "[]" and verr = "BStr ''E''" and vcode = "BInt 11000"
        and r = "\<lparr>data = [[(''err'', BStr ''E''), (''code'', BInt 11000)]], number_returned = 1\<rparr>"]
    at [where body = "[3]" and r = "\<lparr>data = [[(''n'', BInt 1)]], number_returned = 1\<rparr>"]
  show ?thesis
    by (simp add: bad err ok dm call_user dict_get_def)
qed

text \<open>
  C5. With no callback pending, a body changes nothing and calls nothing. With a callback
  pending, the callback runs on the connection whose callback and request id are
  already cleared, and the connection is handed back to the pool first exactly when no
  message is deferred. For a caller's completion this is the whole of it: the connection
  is left cleared and the calls are the pool's \<open>cache\<close> (when nothing is deferred)
  followed by the completion.
\<close>

theorem parse_response_order:
  "(callback c = None \<longrightarrow> parse_response e c body = (None, c, []))
   \<and> (callback c = Some cb \<longrightarrow>
        (\<exists>r x. parse_response e c body =
           after (if deferred_message c = None then [PoolCache] else [])
             (call e (c\<lparr>request_id := None, callback := None\<rparr>) cb r x)))
   \<and> (callback c = Some (UserCallback k) \<longrightarrow>
        (\<exists>r x. parse_response e c body =
           (None, c\<lparr>request_id := None, callback := None\<rparr>,
            (if deferred_message c = None then [PoolCache] else []) @ [CallbackInvoked k r x])))"
proof (intro conjI impI)
  assume "callback c = None"
  then show "parse_response e c body = (None, c, [])"
    by (simp add: parse_response_def)
next
  assume cb: "callback c = Some cb"
  show "\<exists>r x. parse_response e c body =
          after (if deferred_message c = None then [PoolCache] else [])
            (call e (c\<lparr>request_id := None, callback := None\<rparr>) cb r x)"
  proof (cases "unpack_response e body (request_id c)")
    case (Inl x)
    with cb show ?thesis
      by (auto simp: parse_response_def Let_def)
  next
    case (Inr r)
    with cb show ?thesis
      by (cases "data r") (auto simp: parse_response_def Let_def)
  qed
next
  assume cb: "callback c = Some (UserCallback k)"
  show "\<exists>r x. parse_response e c body =
          (None, c\<lparr>request_id := None, callback := None\<rparr>,
           (if deferred_message c = None then [PoolCache] else []) @ [CallbackInvoked k r x])"
  proof (cases "unpack_response e body (request_id c)")
    case (Inl x)
    with cb show ?thesis
      by (auto simp: parse_response_def Let_def call_user)
  next
    case (Inr r)
    with cb show ?thesis
      by (cases "data r") (auto simp: parse_response_def Let_def call_user)
  qed
qed

theorem parse_response_order_witness:
  "parse_response sample_env plain_conn [3] = (None, plain_conn, [])
   \<and> parse_response sample_env busy_conn [3] =
       (None, busy_conn\<lparr>request_id := None, callback := None\<rparr>,
        [PoolCache,
         CallbackInvoked 0 (Some \<lparr>data = [[(''n'', BInt 1)]], number_returned = 1\<rparr>) None])
   \<and> parse_response sample_env handshake_conn [1] =
       (None,
        handshake_conn\<lparr>request_id := Some 102, callback := Some FinishAuthentication,
          usage_count := 2\<rparr>,
        [StreamWrite [2], StreamRead 16 ParseHeader])"
proof -
  have idle: "callback plain_conn = None"
    by (simp add: plain_conn_eq)
  have busy: "callback busy_conn = Some (UserCallback 0)"
    and undeferred: "deferred_message busy_conn = None"
    by (simp_all add: busy_conn_eq)
  have auth: "callback handshake_conn = Some StartAuthentication"
    and held: "deferred_message handshake_conn = Some (7, [7])"
    by (simp_all add: handshake_conn_eq)
  have reply: "parse_response sample_env busy_conn [3] =
       (None, busy_conn\<lparr>request_id := None, callback := None\<rparr>,
        [PoolCache,
         CallbackInvoked 0 (Some \<lparr>data = [[(''n'', BInt 1)]], number_returned = 1\<rparr>) None])"
    by (simp add: busy_conn_eq parse_response_def call_user dict_get_def sample_defs)
  have nonce: "parse_response sample_env handshake_conn [1] =
       (None,
        handshake_conn\<lparr>request_id := Some 102, callback := Some FinishAuthentication,
          usage_count := 2\<rparr>,
        [StreamWrite [2], StreamRead 16 ParseHeader])"
    by (simp add: handshake_conn_eq parse_response_def call_def start_authentication_def
        send_message'_def dict_get_def opt_bson_def sample_defs)
  from parse_response_order [of plain_conn sample_env "[3]"]
    parse_response_order [of busy_conn sample_env "[3]" "UserCallback 0" 0]
    parse_response_order [of handshake_conn sample_env "[1]" StartAuthentication]
  show ?thesis
    by (simp add: idle busy undeferred auth held reply nonce)
qed

subsection \<open>Sending without a completion\<close>

text \<open>
  C8, as the code has it. When no callback is registered, \<open>_send_message\<close> never asks
  the stream for a reply. When the write returns, it has written the data of the message,
  cleared the request id and handed the connection back to the pool, in that order and
  with no other call; this is what \<open>send_message\<close> with no completion does on a live
  connection that does not authenticate. When the write raises \<open>IOError\<close>, the error
  leaves the method with the connection marked as not alive: the request id stays set and
  the pool is not told.
\<close>

theorem fire_and_forget:
  assumes "callback c = None" and "stream c = Some s"
  shows "StreamRead n k \<notin> set (snd (snd (send_message' e c (Some m))))
       \<and> (write_error e = None \<longrightarrow>
            send_message' e c (Some m) =
              (None, c\<lparr>usage_count := usage_count c + 1, request_id := None\<rparr>,
               [StreamWrite (snd m), PoolCache]))
       \<and> (write_error e = None \<and> alive c \<and> \<not> authenticate c \<longrightarrow>
            send_message e c m None =
              (None, c\<lparr>usage_count := usage_count c + 1, request_id := None\<rparr>,
               [StreamWrite (snd m), PoolCache]))
       \<and> (write_error e = Some w \<longrightarrow>
            send_message' e c (Some m) =
              (Some (IOError w),
               c\<lparr>usage_count := usage_count c + 1, request_id := Some (fst m), alive := False\<rparr>,
               [StreamWrite (snd m)]))"
proof -
  have same: "c\<lparr>callback := None\<rparr> = c"
    using assms(1) by (cases c) simp
  show ?thesis
    using assms
    by (cases m) (auto simp: send_message_def send_message'_def same Let_def split: option.splits)
qed

theorem fire_and_forget_witness:
  "StreamRead 16 ParseHeader \<notin> set (snd (snd (send_message' sample_env plain_conn (Some (9, [9])))))
   \<and> send_message' sample_env plain_conn (Some (9, [9])) =
       (None, plain_conn\<lparr>usage_count := 1, request_id := None\<rparr>, [StreamWrite [9], PoolCache])
   \<and> send_message sample_env plain_conn (9, [9]) None =
       (None, plain_conn\<lparr>usage_count := 1, request_id := None\<rparr>, [StreamWrite [9], PoolCache])
   \<and> send_message' broken_env plain_conn (Some (9, [9])) =
       (Some (IOError ''broken pipe''),
        plain_conn\<lparr>usage_count := 1, request_id := Some 9, alive := False\<rparr>, [StreamWrite [9]])"
proof -
  have idle: "callback plain_conn = None" and st: "stream plain_conn = Some 1"
    and live: "alive plain_conn" and plain: "\<not> authenticate plain_conn"
    and used: "usage_count plain_conn = 0"
    by (simp_all add: plain_conn_eq)
  have env: "write_error sample_env = None"
    and broken: "write_error broken_env = Some ''broken pipe''"
    by (simp_all add: broken_env_def sample_env_def)
  from fire_and_forget [OF idle st, of 16 ParseHeader sample_env "(9, [9])"]
    fire_and_forget [OF idle st, of 16 ParseHeader broken_env "(9, [9])" "''broken pipe''"]
  show ?thesis
    by (simp add: env broken live plain used)
qed

text \<open>
  C8 as the specification words it fails: a send with no completion whose write raises
  \<open>IOError\<close> neither clears the request id nor hands the connection back to the pool.
\<close>

theorem fire_and_forget_write_error:
  "callback plain_conn = None
   \<and> send_message broken_env plain_conn (9, [9]) None =
       (Some (IOError ''broken pipe''),
        plain_conn\<lparr>usage_count := 1, request_id := Some 9, alive := False\<rparr>, [StreamWrite [9]])
   \<and> request_id (fst (snd (send_message broken_env plain_conn (9, [9]) None))) \<noteq> None
   \<and> PoolCache \<notin> set (snd (snd (send_message broken_env plain_conn (9, [9]) None)))"
  by (simp add: plain_conn_eq send_message_def send_message'_def sample_defs)

subsection \<open>A failed connect\<close>

text \<open>
  C9, as the code has it. When creating or connecting the socket raises
  \<open>socket.error\<close>, \<open>__connect\<close> raises \<open>InterfaceError\<close> carrying that error
  (the class is \<open>InterfaceError\<close>, not \<open>ConnectionError\<close>), the connection is no
  more alive than before, and there was a single attempt: one socket was created and at
  most one connect was started.
\<close>

theorem connect_failure:
  assumes "socket_error e = Some x \<or> (socket_error e = None \<and> connect_error e = Some x)"
  shows "fst (connect e c) = Some (InterfaceError (Exc (SocketError x)))
       \<and> alive (fst (snd (connect e c))) = alive c
       \<and> count_list (snd (snd (connect e c))) SocketCreate = 1
       \<and> count_list (snd (snd (connect e c))) (StreamConnect (host c) (port c))
           + count_list (snd (snd (connect e c))) (SocketConnect (host c) (port c)) \<le> 1"
  using assms by (auto simp: connect_def Let_def split: option.splits)

theorem connect_failure_witness:
  "connect_error refusing_env = Some ''refused''
   \<and> fst (connect refusing_env (plain_conn\<lparr>alive := False\<rparr>)) =
       Some (InterfaceError (Exc (SocketError ''refused'')))
   \<and> \<not> alive (fst (snd (connect refusing_env (plain_conn\<lparr>alive := False\<rparr>))))
   \<and> count_list (snd (snd (connect refusing_env (plain_conn\<lparr>alive := False\<rparr>)))) SocketCreate = 1"
proof -
  have env: "socket_error refusing_env = Some ''refused'' \<or>
             (socket_error refusing_env = None \<and> connect_error refusing_env = Some ''refused'')"
    by (simp add: refusing_env_def sample_env_def)
  from connect_failure [OF env, of "plain_conn\<lparr>alive := False\<rparr>"] show ?thesis
    by (simp add: refusing_env_def sample_env_def)
qed

text \<open>
  C9 as the specification words it fails: the exception of a refused connect is not a
  \<open>ConnectionError\<close>.
\<close>

theorem connect_refused_not_connection_error:
  "fst (init refusing_env ''localhost'' 27017 20 20 None None True sample_pool Tornado) =
     Some (InterfaceError (Exc (SocketError ''refused'')))
   \<and> fst (init refusing_env ''localhost'' 27017 20 20 None None True sample_pool Tornado) \<noteq>
     Some (ConnectionError (Exc (SocketError ''refused'')))"
  by (simp add: init_def connect_def refusing_env_def sample_env_def)

lemma send_message_reconnect_failure:
  assumes "callback c = None" and "\<not> alive c" and "autoreconnect c"
    and "socket_error e = Some x \<or> (socket_error e = None \<and> connect_error e = Some x)"
  shows "send_message e c m cb = connect e c"
proof -
  obtain y c1 evs where out: "connect e c = (y, c1, evs)"
    by (cases "connect e c") auto
  have "fst (connect e c) = Some (InterfaceError (Exc (SocketError x)))"
    using assms(4) by (auto simp: connect_def Let_def split: option.splits)
  with out have "y = Some (InterfaceError (Exc (SocketError x)))"
    by simp
  with out assms(1-3) show ?thesis
    by (simp add: send_message_def)
qed

subsection \<open>The count of documents in the authentication reply\<close>

text \<open>
  C10. When the authenticate command is answered without a transport error, a reply
  whose \<open>number_returned\<close> is not 1 makes \<open>_finish_authentication\<close> raise
  \<open>AssertionError\<close> at once: no \<open>AuthenticationError\<close> is raised, and the
  connection, its deferred request included, stays as it was.
\<close>

theorem finish_authentication_count:
  assumes "number_returned r \<noteq> 1"
  shows "finish_authentication e c (Some r) None = (Some AssertionError, c, [])"
  using assms by (simp add: finish_authentication_def)

theorem finish_authentication_count_witness:
  "number_returned \<lparr>data = [], number_returned = 0\<rparr> \<noteq> 1
   \<and> finish_authentication sample_env handshake_conn
        (Some \<lparr>data = [], number_returned = 0\<rparr>) None =
       (Some AssertionError, handshake_conn, [])"
proof -
  have count: "number_returned \<lparr>data = [], number_returned = 0\<rparr> \<noteq> 1"
    by simp
  from finish_authentication_count [OF count] count show ?thesis
    by simp
qed

subsection \<open>Authentication is repeated for every request\<close>

text \<open>
  Nothing clears the flag that \<open>__connect\<close> sets for a connection with credentials:
  whatever is delivered to the connection, a flag that is set stays set.
\<close>

lemma send_message'_authenticate:
  "authenticate (fst (snd (send_message' e c m))) = authenticate c"
  by (auto simp: send_message'_def Let_def split: option.splits prod.splits)

lemma call_authenticate:
  "authenticate (fst (snd (call e c cb r x))) = authenticate c"
  by (auto simp: call_def start_authentication_def finish_authentication_def
      send_message'_authenticate Let_def split: callback.splits option.splits list.splits)

lemma after_state: "fst (snd (after evs out)) = fst (snd out)"
  by (cases out) simp

lemma parse_response_authenticate:
  "authenticate (fst (snd (parse_response e c b))) = authenticate c"
  by (auto simp: parse_response_def Let_def after_state call_authenticate
      split: option.splits sum.splits list.splits)

lemma parse_header_authenticate:
  "authenticate (fst (snd (parse_header e c h))) = authenticate c"
  by (auto simp: parse_header_def split: option.splits sum.splits)

lemma close_authenticate:
  "authenticate (fst (snd (close e c))) = authenticate c"
proof (cases "callback c")
  case None
  then show ?thesis
    by (auto simp: close_def close'_def Let_def split: option.splits)
next
  case (Some cb)
  obtain x c1 evs
    where out: "call e c cb None (Some (InterfaceError (Str ''connection closed''))) = (x, c1, evs)"
    by (cases "call e c cb None (Some (InterfaceError (Str ''connection closed'')))") auto
  with call_authenticate [of e c cb None "Some (InterfaceError (Str ''connection closed''))"]
  have "authenticate c1 = authenticate c"
    by simp
  with Some out show ?thesis
    by (auto simp: close_def close'_def Let_def split: option.splits)
qed

lemma socket_close_authenticate:
  "authenticate (fst (snd (socket_close e c))) = authenticate c"
proof (cases "callback c")
  case None
  then show ?thesis
    by (simp add: socket_close_def)
next
  case (Some cb)
  obtain x c1 evs
    where out: "call e c cb None (Some (InterfaceError (Str ''connection closed''))) = (x, c1, evs)"
    by (cases "call e c cb None (Some (InterfaceError (Str ''connection closed'')))") auto
  with call_authenticate [of e c cb None "Some (InterfaceError (Str ''connection closed''))"]
  have "authenticate c1 = authenticate c"
    by simp
  with Some out show ?thesis
    by (auto simp: socket_close_def split: option.splits)
qed

lemma connect_authenticate:
  "authenticate c \<Longrightarrow> authenticate (fst (snd (connect e c)))"
  by (auto simp: connect_def connect_done_def Let_def split: option.splits)

lemma send_message_authenticate:
  assumes "authenticate c"
  shows "authenticate (fst (snd (send_message e c m cb)))"
proof -
  obtain x c1 evs where out: "connect e c = (x, c1, evs)"
    by (cases "connect e c") auto
  with connect_authenticate [OF assms, of e] have "authenticate c1"
    by simp
  with assms out show ?thesis
    by (auto simp: send_message_def get_nonce_def after_state send_message'_authenticate Let_def
        split: option.splits)
qed

lemma deliver_authenticate:
  assumes "authenticate c"
  shows "authenticate (fst (snd (deliver e c i)))"
proof (cases i)
  case (Request m cb)
  with assms show ?thesis
    by (simp add: send_message_authenticate)
next
  case (Header h)
  with assms show ?thesis
    by (simp add: parse_header_authenticate)
next
  case (Body b)
  with assms show ?thesis
    by (simp add: parse_response_authenticate)
next
  case TimerExpired
  with assms show ?thesis
    by (simp add: on_timeout_def close_authenticate)
next
  case Connected
  with assms show ?thesis
    by (auto simp: on_connect_def Let_def split: option.splits)
next
  case PeerClosed
  with assms show ?thesis
    by (simp add: socket_close_authenticate)
qed

text \<open>
  So every request handed to an idle, live connection with credentials is deferred, and
  what goes on the wire is the nonce command.
\<close>

lemma send_message_defers:
  assumes "authenticate c" and "alive c" and "callback c = None" and "stream c = Some s"
    and "write_error e = None" and "read_error e = None"
    and "query e 0 (dbname (pool c) @ ''.$cmd'') 0 1 [(''getnonce'', BInt 1)] [] = (rid, d)"
  shows "send_message e c m cb =
           (None,
            c\<lparr>deferred_message := Some m, deferred_callback := cb,
              callback := Some StartAuthentication, usage_count := usage_count c + 1,
              request_id := Some rid\<rparr>,
            [StreamWrite d, StreamRead 16 ParseHeader])"
  using assms by (simp add: send_message_def get_nonce_def send_message'_def)

text \<open>
  The first half of the claim holds in general: when the nonce reply carries a nonce and
  the authentication reply is a single document that is ok, the bytes written for a
  request are those of the nonce command, of the authenticate command and of the
  request, in this order.
\<close>

lemma handshake_then_request:
  assumes c: "authenticate c" "alive c" "callback c = None" "stream c = Some s"
    and io: "write_error e = None" "read_error e = None"
    and q1: "query e 0 (dbname (pool c) @ ''.$cmd'') 0 1 [(''getnonce'', BInt 1)] [] = (rid1, d1)"
    and r1: "unpack_response e b1 (Some rid1) = Inr r1" "data r1 = n # ns"
      "map_of n ''nonce'' = Some nonce"
      "\<not> (truthy (dict_get n ''err'') \<and> truthy (dict_get n ''code''))"
    and q2: "query e 0 (dbname (pool c) @ ''.$cmd'') 0 1
               [(''authenticate'', BInt 1), (''user'', opt_bson (dbuser c)), (''nonce'', nonce),
                (''key'', auth_key e nonce (opt_bson (dbuser c)) (opt_bson (dbpass c)))] [] =
             (rid2, d2)"
    and r2: "unpack_response e b2 (Some rid2) = Inr r2" "number_returned r2 = 1"
      "data r2 = a # as" "map_of a ''ok'' = Some v" "\<not> ne_one v"
      "\<not> (truthy (dict_get a ''err'') \<and> truthy (dict_get a ''code''))"
  shows "writes (snd (snd (run e c [Request m cb, Body b1, Body b2]))) = [d1, d2, snd m]"
proof -
  define c1 where
    "c1 = c\<lparr>deferred_message := Some m, deferred_callback := cb,
            callback := Some StartAuthentication, usage_count := usage_count c + 1,
            request_id := Some rid1\<rparr>"
  have s1: "send_message e c m cb = (None, c1, [StreamWrite d1, StreamRead 16 ParseHeader])"
    unfolding c1_def using c io q1 by (rule send_message_defers)
  have f1: "callback c1 = Some StartAuthentication" "deferred_message c1 = Some m"
    "stream c1 = Some s" "request_id c1 = Some rid1" "dbuser c1 = dbuser c"
    "dbpass c1 = dbpass c" "pool c1 = pool c"
    using c by (simp_all add: c1_def)
  have plain1: "(truthy (dict_get n ''err'') \<and> truthy (dict_get n ''code'')) = False"
    using r1(4) by simp
  have plain2: "(truthy (dict_get a ''err'') \<and> truthy (dict_get a ''code'')) = False"
    using r2(6) by simp
  define c2 where
    "c2 = c1\<lparr>request_id := Some rid2, callback := Some FinishAuthentication,
             usage_count := usage_count c1 + 1\<rparr>"
  have s2: "parse_response e c1 b1 = (None, c2, [StreamWrite d2, StreamRead 16 ParseHeader])"
    using f1 io q2 r1(1-3)
    by (simp add: parse_response_def call_def start_authentication_def send_message'_def plain1
        c2_def)
  have f2: "callback c2 = Some FinishAuthentication" "deferred_message c2 = Some m"
    "deferred_callback c2 = cb" "stream c2 = Some s" "request_id c2 = Some rid2"
    using f1 by (simp_all add: c2_def c1_def)
  have s3: "writes (snd (snd (parse_response e c2 b2))) = [snd m]
            \<and> fst (parse_response e c2 b2) = None"
    using f2 io r2(1-5)
    by (cases m; cases cb)
      (simp_all add: parse_response_def call_def finish_authentication_def send_message'_def
        plain2)
  obtain c3 evs3 where out3: "parse_response e c2 b2 = (None, c3, evs3)"
    using s3 by (cases "parse_response e c2 b2") auto
  with s3 have "writes evs3 = [snd m]"
    by simp
  with s1 s2 out3 show ?thesis
    by simp
qed

lemmas run_defs =
  two_requests_def send_message_def get_nonce_def send_message'_def parse_header_def
  unpack_i_def int32_le_def parse_response_def call_def start_authentication_def
  finish_authentication_def dict_get_def opt_bson_def sample_defs

text \<open>
  C2. The first request of a connection with credentials is preceded by the nonce
  command and the authenticate command, as claimed. The second request on the same live
  connection is not sent either: the nonce command goes out again (the bytes written are
  those of nonce, authenticate, first request, nonce), and the second request is deferred.
\<close>

theorem second_request_authenticates_again:
  "run sample_env cred_conn two_requests =
     (None,
      cred_conn\<lparr>deferred_message := Some (8, [8]), deferred_callback := Some (UserCallback 1),
        callback := Some StartAuthentication, usage_count := 4, request_id := Some 101\<rparr>,
      [StreamWrite [1], StreamRead 16 ParseHeader, StreamRead 1 ParseResponse,
       StreamWrite [2], StreamRead 16 ParseHeader, StreamRead 1 ParseResponse,
       StreamWrite [7], StreamRead 16 ParseHeader, StreamRead 1 ParseResponse,
       PoolCache,
       CallbackInvoked 0 (Some \<lparr>data = [[(''n'', BInt 1)]], number_returned = 1\<rparr>) None,
       StreamWrite [1], StreamRead 16 ParseHeader])
   \<and> writes (snd (snd (run sample_env cred_conn two_requests))) = [[1], [2], [7], [1]]"
  by (simp add: cred_conn_eq run_defs)

subsection \<open>A timeout during the handshake\<close>

text \<open>
  With no callback pending, or a caller's completion, the timeout does what is claimed:
  the completion gets \<open>InterfaceError\<close>, the connection is not alive, the stream is
  closed and the connection is handed back to the pool.
\<close>

lemma on_timeout_closes:
  assumes "stream c = Some s"
  shows "callback c = None \<Longrightarrow>
           on_timeout e c =
             (None, c\<lparr>timeout := None, callback := None, alive := False\<rparr>,
              [StreamClose, PoolCache])"
    and "callback c = Some (UserCallback k) \<Longrightarrow>
           on_timeout e c =
             (None, c\<lparr>timeout := None, callback := None, alive := False\<rparr>,
              [CallbackInvoked k None (Some (InterfaceError (Str ''connection closed''))),
               StreamClose, PoolCache])"
  using assms by (simp_all add: on_timeout_def close_def close'_def call_def)

text \<open>
  C6. When the timer expires while the nonce request of the handshake is pending, the
  pending callback is the connection's own continuation: called with the
  \<open>InterfaceError\<close>, it raises \<open>AuthenticationError\<close>, which leaves \<open>_close\<close>
  before the cleanup. Only the timer reference is cleared: the connection is still
  alive, the callback is still pending, the stream is not closed and the pool is not
  told.
\<close>

theorem timeout_during_handshake:
  "on_timeout sample_env handshake_conn =
     (Some (AuthenticationError (Exc (InterfaceError (Str ''connection closed'')))),
      handshake_conn\<lparr>timeout := None\<rparr>, [])
   \<and> alive (fst (snd (on_timeout sample_env handshake_conn)))
   \<and> callback (fst (snd (on_timeout sample_env handshake_conn))) = Some StartAuthentication"
  by (simp add: handshake_conn_eq on_timeout_def close_def close'_def call_def
      start_authentication_def)

subsection \<open>The deferred request after a failed handshake\<close>

text \<open>
  The continuation of the authenticate command clears the deferred pair on each of the
  exits the code names: a transport error, a reply that is not ok, success.
\<close>

lemma finish_authentication_error:
  "finish_authentication e c r (Some x) =
     (Some (AuthenticationError (Exc x)),
      c\<lparr>deferred_message := None, deferred_callback := None\<rparr>, [])"
  by (simp add: finish_authentication_def)

lemma finish_authentication_clears:
  assumes "number_returned r = 1" and "data r = d # ds" and "map_of d ''ok'' = Some v"
    and "ne_one v \<longrightarrow> map_of d ''errmsg'' \<noteq> None"
  shows "deferred_message (fst (snd (finish_authentication e c (Some r) None))) = None
       \<and> deferred_callback (fst (snd (finish_authentication e c (Some r) None))) = None"
  using assms
  by (auto simp: finish_authentication_def send_message'_def Let_def
      split: option.splits prod.splits)

text \<open>The continuation of the nonce request raises and leaves the connection as it is.\<close>

lemma start_authentication_error:
  "start_authentication e c r (Some x) = (Some (AuthenticationError (Exc x)), c, [])"
  by (simp add: start_authentication_def)

text \<open>
  C7. When the reply to the nonce request cannot be decoded, the handshake ends with
  \<open>AuthenticationError\<close> and the deferred message and completion are still stored:
  \<open>_start_authentication\<close> does not clear them, unlike \<open>_finish_authentication\<close>.
  The same holds when the peer closes the socket while the nonce request is pending.
\<close>

theorem nonce_failure_keeps_deferred:
  "parse_response sample_env handshake_conn [0] =
     (Some (AuthenticationError (Exc (DatabaseError ''database error''))),
      handshake_conn\<lparr>request_id := None, callback := None\<rparr>, [])
   \<and> deferred_message (fst (snd (parse_response sample_env handshake_conn [0]))) = Some (7, [7])
   \<and> deferred_callback (fst (snd (parse_response sample_env handshake_conn [0]))) =
       Some (UserCallback 0)
   \<and> deferred_message (fst (snd (socket_close sample_env handshake_conn))) = Some (7, [7])"
  by (simp add: handshake_conn_eq parse_response_def socket_close_def call_def
      start_authentication_def sample_defs)

end
